theory Spec2Isabelle
  imports Main
begin

section \<open>The world outside the compiler\<close>

text \<open>
  \<^verbatim>\<open>src/tools/classes/PresenceCompiler.ts\<close> drives four collaborators that it does not
  implement: the filesystem (\<^verbatim>\<open>node:fs\<close>), the path library (\<^verbatim>\<open>node:path\<close>), the
  installer process (\<^verbatim>\<open>execSync\<close>) and the bundler (\<^verbatim>\<open>webpack.webpack\<close>). The
  filesystem is modelled as a map from resolved paths to nodes; the three calls the class
  makes on it are written out below, each with the exceptions it raises. Everything else is a
  parameter, collected in the record \<open>env\<close>.
\<close>

datatype node = File string | Directory

type_synonym fs = "string \<rightharpoonup> node"

text \<open>
  Everything the class can throw. The tag records which call raised: a filesystem call
  (error code and path), \<^verbatim>\<open>execSync\<close> (a non-zero exit of the installer), or the error
  the bundler hands to its callback (\<^verbatim>\<open>job.error\<close>, \<^verbatim>\<open>job.err\<close>).
\<close>

datatype error = FsError string string | ExecError string | BundlerError string

text \<open>A \<^verbatim>\<open>webpack.WebpackError\<close>, as far as the class reads it.\<close>

record webpack_error =
  name :: string
  message :: string

text \<open>The \<^verbatim>\<open>ErrorInfo\<close> of ts-loader handed to \<^verbatim>\<open>errorFormatter\<close>.\<close>

record error_info =
  ts_code :: int
  ts_content :: string
  ts_file :: string
  ts_line :: int
  ts_character :: int

subsection \<open>The bundler's configuration object\<close>

record output_options =
  iife :: bool
  path :: "string option"
  filename :: string

text \<open>
  The one module rule. Its \<^verbatim>\<open>errorFormatter\<close> is always the function of lines 72 to 94,
  so the rule carries only \<^verbatim>\<open>transpileOnly\<close>.
\<close>

record rule =
  test :: string
  loader :: string
  exclude :: string
  rule_transpileOnly :: "bool option"

text \<open>
  A \<^verbatim>\<open>webpack.Configuration\<close>: every key is optional, \<open>None\<close> is \<^verbatim>\<open>undefined\<close>.
  \<open>cfg_rest\<close> holds the keys the class never sets itself (plugins, externals, ...), which
  can only come from the constructor's override.
\<close>

record configuration =
  cfg_mode :: "string option"
  cfg_devtool :: "string option"
  cfg_resolve :: "string list option"
  cfg_output :: "output_options option"
  cfg_module :: "rule list option"
  cfg_context :: "string option"
  cfg_entry :: "(string \<times> string) list option"
  cfg_rest :: "(string \<times> string) list"

text \<open>
  The constructor's \<^verbatim>\<open>options.webpack\<close>, which line 99 spreads over the configuration.
  For each key, \<open>None\<close> says that the override has no such own property and \<open>Some v\<close>
  that it has one with value \<open>v\<close> (which may itself be \<^verbatim>\<open>undefined\<close>).
\<close>

record configuration_override =
  ov_mode :: "string option option"
  ov_devtool :: "string option option"
  ov_resolve :: "string list option option"
  ov_output :: "output_options option option"
  ov_module :: "rule list option option"
  ov_context :: "string option option"
  ov_entry :: "(string \<times> string) list option option"
  ov_rest :: "(string \<times> string) list"

subsection \<open>What the class does to the world\<close>

text \<open>
  The answer of one bundler run, \<^verbatim>\<open>{ error, stats }\<close> (\<^verbatim>\<open>{ err, stats }\<close> in the
  single-unit path). \<open>job_stats\<close> is \<^verbatim>\<open>stats.compilation.errors\<close>, \<open>None\<close> when
  \<^verbatim>\<open>stats\<close> is undefined.
\<close>

record job =
  job_error :: "string option"
  job_stats :: "webpack_error list option"

text \<open>
  The messages sent to \<^verbatim>\<open>actions.info\<close>, one constructor per template string:
  \<^verbatim>\<open>Compiling ${presence.length} Presence(s)\<close>,
  \<^verbatim>\<open>Compiling ${presence}...\<close>,
  \<^verbatim>\<open>Installing dependencies for ${basename(folder)}\<close>,
  \<^verbatim>\<open>Successfully compiled ${presence}\<close>, \<^verbatim>\<open>Successfully transpiled ${presence}\<close>,
  \<^verbatim>\<open>Successfully compiled ${presence.length} Presence(s)\<close> and
  \<^verbatim>\<open>Successfully transpiled ${presence.length} Presence(s)\<close>.
\<close>

datatype info =
    Compiling_batch nat
  | Compiling string
  | Installing string
  | Compiled string
  | Transpiled string
  | Compiled_batch nat
  | Transpiled_batch nat

text \<open>
  Every call the class makes on a collaborator, in the order it makes them. A call is
  recorded when it is made, also when it then throws. \<open>Call_webpack\<close> keeps the
  configuration passed, the filesystem as it was at that moment and the answer given to
  the callback. \<open>Call_error\<close> is the \<^verbatim>\<open>actions.error\<close> of \<^verbatim>\<open>errorFormatter\<close>.
\<close>

datatype event =
    Call_writeFileSync string string
  | Call_rmSync string
  | Call_execSync string string
  | Call_webpack configuration fs job
  | Call_info info
  | Call_error error_info

text \<open>
  What one run of the bundler does: its answer, the \<^verbatim>\<open>ErrorInfo\<close>s for which ts-loader
  called \<^verbatim>\<open>errorFormatter\<close> during the run, and the filesystem it leaves.
\<close>

record bundler_run =
  run_error :: "string option"
  run_stats :: "webpack_error list option"
  run_formatted :: "error_info list"
  run_fs :: fs

text \<open>
  The parameters: \<^verbatim>\<open>resolve\<close>, \<^verbatim>\<open>basename\<close> and \<^verbatim>\<open>dirname\<close> of \<^verbatim>\<open>node:path\<close>;
  \<^verbatim>\<open>getFolderLetter\<close> of \<^verbatim>\<open>../util/getFolderLetter.js\<close>; the module constant
  \<^verbatim>\<open>rootPath\<close>; \<^verbatim>\<open>execSync\<close> (command, working directory), which answers with the
  error of a non-zero exit, if any, and the filesystem it leaves; and \<^verbatim>\<open>webpack.webpack\<close>.
\<close>

record env =
  resolve :: "string list \<Rightarrow> string"
  basename :: "string \<Rightarrow> string"
  dirname :: "string \<Rightarrow> string"
  getFolderLetter :: "string \<Rightarrow> string"
  rootPath :: string
  execSync :: "string \<Rightarrow> string \<Rightarrow> fs \<Rightarrow> string option \<times> fs"
  webpack :: "configuration \<Rightarrow> fs \<Rightarrow> bundler_run"

subsection \<open>The three filesystem calls\<close>

definition existsSync :: "fs \<Rightarrow> string \<Rightarrow> bool" where
  "existsSync fs p = (fs p \<noteq> None)"

text \<open>
  \<^verbatim>\<open>writeFileSync(p, c)\<close> creates or replaces the file; it throws when the directory of
  \<open>p\<close> is missing or is a file, and when \<open>p\<close> is a directory.
\<close>

definition writeFileSync :: "env \<Rightarrow> string \<Rightarrow> string \<Rightarrow> fs \<Rightarrow> error + fs" where
  "writeFileSync E p c fs =
     (case fs (dirname E p) of
        None \<Rightarrow> Inl (FsError ''ENOENT'' p)
      | Some (File _) \<Rightarrow> Inl (FsError ''ENOTDIR'' p)
      | Some Directory \<Rightarrow>
          (case fs p of
             Some Directory \<Rightarrow> Inl (FsError ''EISDIR'' p)
           | _ \<Rightarrow> Inr (fs(p \<mapsto> File c))))"

text \<open>
  \<^verbatim>\<open>rmSync(p)\<close> with no options removes a file; it throws on a missing path and on a
  directory.
\<close>

definition rmSync :: "string \<Rightarrow> fs \<Rightarrow> error + fs" where
  "rmSync p fs =
     (case fs p of
        None \<Rightarrow> Inl (FsError ''ENOENT'' p)
      | Some Directory \<Rightarrow> Inl (FsError ''ERR_FS_EISDIR'' p)
      | Some (File _) \<Rightarrow> Inr (fs(p := None)))"

section \<open>The class PresenceCompiler\<close>

text \<open>Line 19: \<^verbatim>\<open>JSON.stringify({ extends: "../../../tsconfig.json" })\<close>.\<close>

definition tsconfig :: string where
  "tsconfig = [CHR ''{'', CHR 0x22] @ ''extends'' @ [CHR 0x22, CHR '':'', CHR 0x22]
     @ ''../../../tsconfig.json'' @ [CHR 0x22, CHR ''}'']"

record constructor_options =
  ctor_cwd :: "string option"
  ctor_webpack :: "configuration_override option"

record presence_compiler =
  cwd :: string
  options :: "constructor_options option"

text \<open>The constructor, lines 26 to 33.\<close>

definition PresenceCompiler :: "env \<Rightarrow> constructor_options option \<Rightarrow> presence_compiler" where
  "PresenceCompiler E opts =
     \<lparr>cwd = (case opts of
               None \<Rightarrow> rootPath E
             | Some co \<Rightarrow> (case ctor_cwd co of None \<Rightarrow> rootPath E | Some c \<Rightarrow> c)),
      options = opts\<rparr>"

definition getPresenceFolder :: "env \<Rightarrow> presence_compiler \<Rightarrow> string \<Rightarrow> string" where
  "getPresenceFolder E C presence =
     resolve E [cwd C, ''websites'', getFolderLetter E presence, presence]"

text \<open>The second argument of \<^verbatim>\<open>compilePresence\<close>.\<close>

record compile_options =
  opt_output :: "string option"
  transpileOnly :: "bool option"
  emit :: "bool option"

text \<open>The first argument, \<^verbatim>\<open>string | string[]\<close>.\<close>

datatype target = Single string | Batch "string list"

text \<open>
  A step of the class: what it returns or throws, the filesystem it leaves, and the calls it
  made.
\<close>

type_synonym 'a step = "(error + 'a) \<times> fs \<times> event list"

subsection \<open>installPresenceDependencies, lines 211 to 221\<close>

definition npm_install :: string where
  "npm_install = ''npm install --quiet --loglevel=error''"

definition installPresenceDependencies ::
  "env \<Rightarrow> presence_compiler \<Rightarrow> string \<Rightarrow> fs \<Rightarrow> unit step" where
  "installPresenceDependencies E C presence fs =
     (let folder = getPresenceFolder E C presence in
      if \<not> existsSync fs (resolve E [folder, ''package.json'']) then (Inr (), fs, [])
      else
        (case execSync E npm_install folder fs of
           (failed, fs') \<Rightarrow>
             ((case failed of Some m \<Rightarrow> Inl (ExecError m) | None \<Rightarrow> Inr ()),
              fs',
              [Call_info (Installing (basename E folder)),
               Call_execSync npm_install folder])))"

subsection \<open>The configuration, lines 47 to 100\<close>

text \<open>\<^verbatim>\<open>options.emit ??= true; options.transpileOnly ??= false\<close>.\<close>

definition set_defaults :: "compile_options \<Rightarrow> compile_options" where
  "set_defaults opts =
     opts\<lparr>emit := Some (case emit opts of None \<Rightarrow> True | Some b \<Rightarrow> b),
          transpileOnly := Some (case transpileOnly opts of None \<Rightarrow> False | Some b \<Rightarrow> b)\<rparr>"

definition ts_rule :: "compile_options \<Rightarrow> rule" where
  "ts_rule opts =
     \<lparr>test = CHR 0x5C # ''.ts$'', loader = ''ts-loader'', exclude = ''node_modules'',
      rule_transpileOnly = transpileOnly opts\<rparr>"

text \<open>One key of \<^verbatim>\<open>{ ...base, ...override }\<close>.\<close>

definition spread_key :: "'a \<Rightarrow> 'a option \<Rightarrow> 'a" where
  "spread_key base ov = (case ov of None \<Rightarrow> base | Some v \<Rightarrow> v)"

definition spread :: "configuration \<Rightarrow> configuration_override option \<Rightarrow> configuration" where
  "spread base ov =
     (case ov of
        None \<Rightarrow> base
      | Some v \<Rightarrow>
          \<lparr>cfg_mode = spread_key (cfg_mode base) (ov_mode v),
           cfg_devtool = spread_key (cfg_devtool base) (ov_devtool v),
           cfg_resolve = spread_key (cfg_resolve base) (ov_resolve v),
           cfg_output = spread_key (cfg_output base) (ov_output v),
           cfg_module = spread_key (cfg_module base) (ov_module v),
           cfg_context = spread_key (cfg_context base) (ov_context v),
           cfg_entry = spread_key (cfg_entry base) (ov_entry v),
           cfg_rest = cfg_rest base @ ov_rest v\<rparr>)"

text \<open>
  \<^verbatim>\<open>webpackConfig\<close>, built from the options as they are on line 50, after the two defaults
  and before line 167 touches \<^verbatim>\<open>options.output\<close>.
\<close>

definition webpackConfig :: "presence_compiler \<Rightarrow> compile_options \<Rightarrow> configuration" where
  "webpackConfig C opts =
     spread
       \<lparr>cfg_mode = Some ''production'',
        cfg_devtool = Some ''inline-source-map'',
        cfg_resolve = Some [''.ts''],
        cfg_output =
          (if emit opts = Some True
           then Some \<lparr>iife = False, path = opt_output opts, filename = ''[name].js''\<rparr>
           else None),
        cfg_module = Some [ts_rule opts],
        cfg_context = None,
        cfg_entry = None,
        cfg_rest = []\<rparr>
       (case options C of None \<Rightarrow> None | Some co \<Rightarrow> ctor_webpack co)"

text \<open>The \<^verbatim>\<open>entry\<close> object of lines 127 to 132 and 182 to 187.\<close>

definition entry_points :: "env \<Rightarrow> fs \<Rightarrow> string \<Rightarrow> (string \<times> string) list" where
  "entry_points E fs presencePath =
     (''presence'', ''./presence.ts'')
       # (if existsSync fs (resolve E [presencePath, ''iframe.ts''])
          then [(''iframe'', ''./iframe.ts'')] else [])"

text \<open>
  The object passed to \<^verbatim>\<open>webpack.webpack\<close> in the single-unit path, lines 179 to 188:
  \<^verbatim>\<open>{ ...webpackConfig, context, entry }\<close>.
\<close>

definition single_config :: "env \<Rightarrow> configuration \<Rightarrow> string \<Rightarrow> fs \<Rightarrow> configuration" where
  "single_config E wc presencePath fs =
     wc\<lparr>cfg_context := Some presencePath,
        cfg_entry := Some (entry_points E fs presencePath)\<rparr>"

text \<open>
  The object passed in the loop, lines 117 to 133:
  \<^verbatim>\<open>{ ...webpackConfig, context, output, entry }\<close>.
\<close>

definition batch_config ::
  "env \<Rightarrow> compile_options \<Rightarrow> configuration \<Rightarrow> string \<Rightarrow> fs \<Rightarrow> configuration" where
  "batch_config E opts wc presencePath fs =
     wc\<lparr>cfg_context := Some presencePath,
        cfg_output :=
          (if emit opts = Some True
           then Some \<lparr>iife = False, path = Some presencePath, filename = ''[name].js''\<rparr>
           else None),
        cfg_entry := Some (entry_points E fs presencePath)\<rparr>"

text \<open>
  \<^verbatim>\<open>await new Promise(r => webpack.webpack(config, (error, stats) => r({ error, stats })))\<close>:
  one call, one answer. While it runs, ts-loader calls \<^verbatim>\<open>errorFormatter\<close>, whose
  \<^verbatim>\<open>actions.error\<close> is recorded; the string \<^verbatim>\<open>errorFormatter\<close> returns goes back to
  ts-loader and reaches the class only inside the diagnostics of the answer.
\<close>

definition run_webpack :: "env \<Rightarrow> configuration \<Rightarrow> fs \<Rightarrow> job \<times> fs \<times> event list" where
  "run_webpack E config fs =
     (let run = webpack E config fs;
          j = \<lparr>job_error = run_error run, job_stats = run_stats run\<rparr>
      in (j, run_fs run, Call_webpack config fs j # map Call_error (run_formatted run)))"

subsection \<open>compilePresence on a list, lines 102 to 163\<close>

text \<open>The body of the first loop, lines 107 to 140, for one unit.\<close>

definition batch_unit ::
  "env \<Rightarrow> presence_compiler \<Rightarrow> compile_options \<Rightarrow> configuration \<Rightarrow> string \<Rightarrow> fs
     \<Rightarrow> webpack_error list step" where
  "batch_unit E C opts wc p fs =
     (let presencePath = getPresenceFolder E C p;
          cfile = resolve E [presencePath, ''tsconfig.json'']
      in case writeFileSync E cfile tsconfig fs of
           Inl e \<Rightarrow> (Inl e, fs, [Call_writeFileSync cfile tsconfig])
         | Inr fs1 \<Rightarrow>
             (case installPresenceDependencies E C p fs1 of
                (Inl e, fs2, ev2) \<Rightarrow> (Inl e, fs2, Call_writeFileSync cfile tsconfig # ev2)
              | (Inr _, fs2, ev2) \<Rightarrow>
                  (case run_webpack E (batch_config E opts wc presencePath fs2) fs2 of
                     (j, fs3, ev3) \<Rightarrow>
                       ((case job_error j of
                           Some m \<Rightarrow> Inl (BundlerError m)
                         | None \<Rightarrow> Inr (case job_stats j of None \<Rightarrow> [] | Some es \<Rightarrow> es)),
                        fs3,
                        Call_writeFileSync cfile tsconfig # ev2 @ ev3))))"

text \<open>
  The first loop, lines 106 to 141. \<open>errors\<close> is the array the loop pushes onto; a throw
  leaves the loop at once.
\<close>

fun batch_loop ::
  "env \<Rightarrow> presence_compiler \<Rightarrow> compile_options \<Rightarrow> configuration \<Rightarrow> string list
     \<Rightarrow> webpack_error list \<Rightarrow> fs \<Rightarrow> webpack_error list step" where
  "batch_loop E C opts wc [] errors fs = (Inr errors, fs, [])"
| "batch_loop E C opts wc (p # ps) errors fs =
     (case batch_unit E C opts wc p fs of
        (Inl e, fs1, ev1) \<Rightarrow> (Inl e, fs1, ev1)
      | (Inr es, fs1, ev1) \<Rightarrow>
          (case batch_loop E C opts wc ps (errors @ es) fs1 of
             (r, fs2, ev2) \<Rightarrow> (r, fs2, ev1 @ ev2)))"

text \<open>The second loop, lines 143 to 145.\<close>

fun batch_cleanup :: "env \<Rightarrow> presence_compiler \<Rightarrow> string list \<Rightarrow> fs \<Rightarrow> unit step" where
  "batch_cleanup E C [] fs = (Inr (), fs, [])"
| "batch_cleanup E C (p # ps) fs =
     (let cfile = resolve E [getPresenceFolder E C p, ''tsconfig.json'']
      in if existsSync fs cfile
         then (case rmSync cfile fs of
                 Inl e \<Rightarrow> (Inl e, fs, [Call_rmSync cfile])
               | Inr fs1 \<Rightarrow>
                   (case batch_cleanup E C ps fs1 of
                      (r, fs2, ev2) \<Rightarrow> (r, fs2, Call_rmSync cfile # ev2)))
         else batch_cleanup E C ps fs)"

text \<open>\<^verbatim>\<open>errors.filter(e => e.name !== "ModuleBuildError")\<close>, lines 147 and 206.\<close>

definition drop_wrappers :: "webpack_error list \<Rightarrow> webpack_error list" where
  "drop_wrappers errors = filter (\<lambda>e. name e \<noteq> ''ModuleBuildError'') errors"

definition compile_batch ::
  "env \<Rightarrow> presence_compiler \<Rightarrow> compile_options \<Rightarrow> configuration \<Rightarrow> string list \<Rightarrow> fs
     \<Rightarrow> webpack_error list step" where
  "compile_batch E C opts wc presence fs =
     (case batch_loop E C opts wc presence [] fs of
        (Inl e, fs1, ev1) \<Rightarrow> (Inl e, fs1, Call_info (Compiling_batch (length presence)) # ev1)
      | (Inr errors, fs1, ev1) \<Rightarrow>
          (case batch_cleanup E C presence fs1 of
             (Inl e, fs2, ev2) \<Rightarrow>
               (Inl e, fs2, Call_info (Compiling_batch (length presence)) # ev1 @ ev2)
           | (Inr _, fs2, ev2) \<Rightarrow>
               (let errors' = drop_wrappers errors
                in (Inr errors', fs2,
                    Call_info (Compiling_batch (length presence)) # ev1 @ ev2
                      @ (if errors' = []
                         then [Call_info
                                 (if transpileOnly opts \<noteq> Some True
                                  then Compiled_batch (length presence)
                                  else Transpiled_batch (length presence))]
                         else [])))))"

subsection \<open>compilePresence on one name, lines 165 to 208\<close>

text \<open>\<^verbatim>\<open>!options.output\<close>: undefined or the empty string.\<close>

definition no_output :: "compile_options \<Rightarrow> bool" where
  "no_output opts = (opt_output opts = None \<or> opt_output opts = Some [])"

text \<open>Line 167: \<^verbatim>\<open>if (!options.output) options.output = presencePath\<close>.\<close>

definition default_output ::
  "env \<Rightarrow> presence_compiler \<Rightarrow> string \<Rightarrow> compile_options \<Rightarrow> compile_options" where
  "default_output E C presence opts =
     (if no_output opts then opts\<lparr>opt_output := Some (getPresenceFolder E C presence)\<rparr>
      else opts)"

text \<open>Lines 193 and 194.\<close>

definition single_cleanup :: "string \<Rightarrow> fs \<Rightarrow> unit step" where
  "single_cleanup cfile fs =
     (if existsSync fs cfile
      then (case rmSync cfile fs of
              Inl e \<Rightarrow> (Inl e, fs, [Call_rmSync cfile])
            | Inr fs1 \<Rightarrow> (Inr (), fs1, [Call_rmSync cfile]))
      else (Inr (), fs, []))"

text \<open>
  Lines 169 to 208. \<open>opts\<close> are the options after line 167; \<open>wc\<close> is the configuration
  built on line 50.
\<close>

definition compile_single ::
  "env \<Rightarrow> presence_compiler \<Rightarrow> compile_options \<Rightarrow> configuration \<Rightarrow> string \<Rightarrow> fs
     \<Rightarrow> webpack_error list step" where
  "compile_single E C opts wc presence fs =
     (let presencePath = getPresenceFolder E C presence;
          cfile = resolve E [presencePath, ''tsconfig.json'']
      in case writeFileSync E cfile tsconfig fs of
           Inl e \<Rightarrow> (Inl e, fs, [Call_writeFileSync cfile tsconfig])
         | Inr fs1 \<Rightarrow>
             (case installPresenceDependencies E C presence fs1 of
                (Inl e, fs2, ev2) \<Rightarrow> (Inl e, fs2, Call_writeFileSync cfile tsconfig # ev2)
              | (Inr _, fs2, ev2) \<Rightarrow>
                  (case run_webpack E (single_config E wc presencePath fs2) fs2 of
                     (j, fs3, ev3) \<Rightarrow>
                       (let done = Call_writeFileSync cfile tsconfig # ev2
                                     @ Call_info (Compiling presence) # ev3
                        in case single_cleanup cfile fs3 of
                             (Inl e, fs4, ev4) \<Rightarrow> (Inl e, fs4, done @ ev4)
                           | (Inr _, fs4, ev4) \<Rightarrow>
                               (case job_error j of
                                  Some m \<Rightarrow> (Inl (BundlerError m), fs4, done @ ev4)
                                | None \<Rightarrow>
                                    (Inr (case job_stats j of
                                            None \<Rightarrow> []
                                          | Some es \<Rightarrow> drop_wrappers es),
                                     fs4,
                                     done @ ev4
                                       @ (if (case job_stats j of
                                                None \<Rightarrow> True
                                              | Some es \<Rightarrow> length es = 0)
                                          then [Call_info
                                                  (if transpileOnly opts \<noteq> Some True
                                                   then Compiled presence
                                                   else Transpiled presence)]
                                          else [])))))))"

subsection \<open>compilePresence, lines 39 to 209\<close>

text \<open>
  What a call leaves behind: the list it returns or the error it throws, the caller's
  options object, the filesystem, and the calls it made.
\<close>

record result =
  outcome :: "error + webpack_error list"
  options_after :: compile_options
  fs_after :: fs
  events :: "event list"

definition compilePresence ::
  "env \<Rightarrow> presence_compiler \<Rightarrow> target \<Rightarrow> compile_options \<Rightarrow> fs \<Rightarrow> result" where
  "compilePresence E C presence options0 fs =
     (let opts = set_defaults options0;
          wc = webpackConfig C opts
      in case presence of
           Batch ps \<Rightarrow>
             (case compile_batch E C opts wc ps fs of
                (r, fs', ev) \<Rightarrow>
                  \<lparr>outcome = r, options_after = opts, fs_after = fs', events = ev\<rparr>)
         | Single p \<Rightarrow>
             (let opts' = default_output E C p opts
              in case compile_single E C opts' wc p fs of
                   (r, fs', ev) \<Rightarrow>
                     \<lparr>outcome = r, options_after = opts', fs_after = fs', events = ev\<rparr>))"

section \<open>Reading a run\<close>

text \<open>The units of a call, in the caller's order.\<close>

fun units :: "target \<Rightarrow> string list" where
  "units (Single p) = [p]"
| "units (Batch ps) = ps"

text \<open>The ephemeral configuration file of a unit.\<close>

definition config_file :: "env \<Rightarrow> presence_compiler \<Rightarrow> string \<Rightarrow> string" where
  "config_file E C p = resolve E [getPresenceFolder E C p, ''tsconfig.json'']"

text \<open>The bundler invocations among the calls, in order.\<close>

fun bundler_calls :: "event list \<Rightarrow> (configuration \<times> fs \<times> job) list" where
  "bundler_calls [] = []"
| "bundler_calls (Call_webpack c f j # es) = (c, f, j) # bundler_calls es"
| "bundler_calls (_ # es) = bundler_calls es"

text \<open>The diagnostics one bundler invocation answered with.\<close>

definition answered :: "configuration \<times> fs \<times> job \<Rightarrow> webpack_error list" where
  "answered x = (case job_stats (snd (snd x)) of None \<Rightarrow> [] | Some es \<Rightarrow> es)"

text \<open>The diagnostics the bundler answered with, over all its invocations, in order.\<close>

fun diagnostics :: "event list \<Rightarrow> webpack_error list" where
  "diagnostics [] = []"
| "diagnostics (Call_webpack c f j # es) =
     (case job_stats j of None \<Rightarrow> [] | Some ds \<Rightarrow> ds) @ diagnostics es"
| "diagnostics (_ # es) = diagnostics es"

text \<open>The success messages, of one unit or of a batch.\<close>

fun is_success :: "event \<Rightarrow> bool" where
  "is_success (Call_info (Compiled _)) = True"
| "is_success (Call_info (Transpiled _)) = True"
| "is_success (Call_info (Compiled_batch _)) = True"
| "is_success (Call_info (Transpiled_batch _)) = True"
| "is_success _ = False"

definition success_reported :: "event list \<Rightarrow> bool" where
  "success_reported evs = list_ex is_success evs"

fun is_rmSync :: "event \<Rightarrow> bool" where
  "is_rmSync (Call_rmSync _) = True"
| "is_rmSync _ = False"

fun is_execSync :: "event \<Rightarrow> bool" where
  "is_execSync (Call_execSync _ _) = True"
| "is_execSync _ = False"

text \<open>The constructor's override leaves the key \<^verbatim>\<open>output\<close> alone.\<close>

definition keeps_output :: "presence_compiler \<Rightarrow> bool" where
  "keeps_output C =
     (case options C of
        None \<Rightarrow> True
      | Some co \<Rightarrow> (case ctor_webpack co of None \<Rightarrow> True | Some ov \<Rightarrow> ov_output ov = None))"

section \<open>A small world to run the class in\<close>

text \<open>
  One instance of the parameters, used to run the definitions on concrete inputs. Paths are
  joined with a slash; the folder letter is the first character of the name; the installer
  fails in a directory that holds a file \<^verbatim>\<open>broken\<close> and creates \<^verbatim>\<open>node_modules\<close>
  otherwise; the bundler answers according to the text of \<^verbatim>\<open>presence.ts\<close> and, when it is
  given an output path, writes \<^verbatim>\<open>presence.js\<close> there.
\<close>

fun join :: "string list \<Rightarrow> string" where
  "join [] = []"
| "join [x] = x"
| "join (x # y # ys) = x @ ''/'' @ join (y # ys)"

definition leaf :: "string \<Rightarrow> string" where
  "leaf s = rev (takeWhile (\<lambda>c. c \<noteq> CHR ''/'') (rev s))"

definition parent :: "string \<Rightarrow> string" where
  "parent s = rev (drop 1 (dropWhile (\<lambda>c. c \<noteq> CHR ''/'') (rev s)))"

definition type_error :: webpack_error where
  "type_error = \<lparr>name = ''ModuleError'', message = ''TS2322''\<rparr>"

definition wrapper_error :: webpack_error where
  "wrapper_error = \<lparr>name = ''ModuleBuildError'', message = ''Module build failed''\<rparr>"

definition demo_install :: "string \<Rightarrow> string \<Rightarrow> fs \<Rightarrow> string option \<times> fs" where
  "demo_install cmd dir fs =
     (if fs (join [dir, ''broken'']) \<noteq> None then (Some ''npm ERR!'', fs)
      else (None, fs(join [dir, ''node_modules''] \<mapsto> Directory)))"

definition demo_emit :: "configuration \<Rightarrow> fs \<Rightarrow> fs" where
  "demo_emit config fs =
     (case cfg_output config of
        None \<Rightarrow> fs
      | Some out \<Rightarrow>
          (case path out of
             None \<Rightarrow> fs
           | Some d \<Rightarrow> fs(join [d, ''presence.js''] \<mapsto> File ''js'')))"

definition demo_webpack :: "configuration \<Rightarrow> fs \<Rightarrow> bundler_run" where
  "demo_webpack config fs =
     (case cfg_context config of
        None \<Rightarrow>
          \<lparr>run_error = Some ''no context'', run_stats = None, run_formatted = [], run_fs = fs\<rparr>
      | Some dir \<Rightarrow>
          (let src = fs (join [dir, ''presence.ts''])
           in if src = Some (File ''crash'')
              then \<lparr>run_error = Some ''bundler crashed'', run_stats = None,
                    run_formatted = [], run_fs = fs\<rparr>
              else if src = Some (File ''bad'')
              then \<lparr>run_error = None, run_stats = Some [type_error, wrapper_error],
                    run_formatted =
                      [\<lparr>ts_code = 2322, ts_content = ''TS2322'',
                        ts_file = join [dir, ''presence.ts''], ts_line = 1,
                        ts_character = 1\<rparr>],
                    run_fs = fs\<rparr>
              else if src = Some (File ''wrapped'')
              then \<lparr>run_error = None, run_stats = Some [wrapper_error],
                    run_formatted = [], run_fs = fs\<rparr>
              else \<lparr>run_error = None, run_stats = Some [], run_formatted = [],
                    run_fs = demo_emit config fs\<rparr>))"

definition demo_env :: env where
  "demo_env =
     \<lparr>resolve = join, basename = leaf, dirname = parent, getFolderLetter = take 1,
      rootPath = ''/r'', execSync = demo_install, webpack = demo_webpack\<rparr>"

definition demo_compiler :: presence_compiler where
  "demo_compiler = PresenceCompiler demo_env None"

text \<open>
  Five units: \<^verbatim>\<open>a\<close> builds clean, has an \<^verbatim>\<open>iframe.ts\<close> and a stale \<^verbatim>\<open>tsconfig.json\<close>;
  \<^verbatim>\<open>b\<close> has a type error and a manifest; \<^verbatim>\<open>c\<close> makes the bundler fail; \<^verbatim>\<open>d\<close> yields
  only a wrapper error; the installer fails in \<^verbatim>\<open>e\<close>.
\<close>

definition demo_fs :: fs where
  "demo_fs =
     [''/r/websites/a/a'' \<mapsto> Directory,
      ''/r/websites/a/a/presence.ts'' \<mapsto> File ''fine'',
      ''/r/websites/a/a/iframe.ts'' \<mapsto> File ''fine'',
      ''/r/websites/a/a/tsconfig.json'' \<mapsto> File ''stale'',
      ''/r/websites/b/b'' \<mapsto> Directory,
      ''/r/websites/b/b/presence.ts'' \<mapsto> File ''bad'',
      ''/r/websites/b/b/package.json'' \<mapsto> File ''{}'',
      ''/r/websites/c/c'' \<mapsto> Directory,
      ''/r/websites/c/c/presence.ts'' \<mapsto> File ''crash'',
      ''/r/websites/d/d'' \<mapsto> Directory,
      ''/r/websites/d/d/presence.ts'' \<mapsto> File ''wrapped'',
      ''/r/websites/e/e'' \<mapsto> Directory,
      ''/r/websites/e/e/presence.ts'' \<mapsto> File ''fine'',
      ''/r/websites/e/e/package.json'' \<mapsto> File ''{}'',
      ''/r/websites/e/e/broken'' \<mapsto> File []]"

definition no_options :: compile_options where
  "no_options = \<lparr>opt_output = None, transpileOnly = None, emit = None\<rparr>"

definition out_options :: compile_options where
  "out_options = \<lparr>opt_output = Some ''/out'', transpileOnly = None, emit = None\<rparr>"

definition demo :: "target \<Rightarrow> compile_options \<Rightarrow> result" where
  "demo t opts = compilePresence demo_env demo_compiler t opts demo_fs"

section \<open>Lemmas\<close>

subsection \<open>Reading a trace\<close>

lemma bundler_calls_append [simp]:
  "bundler_calls (xs @ ys) = bundler_calls xs @ bundler_calls ys"
  by (induction xs rule: bundler_calls.induct) simp_all

lemma bundler_calls_errors [simp]: "bundler_calls (map Call_error xs) = []"
  by (induction xs) simp_all

lemma diagnostics_append [simp]: "diagnostics (xs @ ys) = diagnostics xs @ diagnostics ys"
  by (induction xs rule: diagnostics.induct) simp_all

lemma diagnostics_errors [simp]: "diagnostics (map Call_error xs) = []"
  by (induction xs) simp_all

lemma diagnostics_answered: "diagnostics ev = concat (map answered (bundler_calls ev))"
  by (induction ev rule: diagnostics.induct) (simp_all add: answered_def)

lemma success_reported_simps [simp]:
  "success_reported [] = False"
  "success_reported (e # es) = (is_success e \<or> success_reported es)"
  "success_reported (xs @ ys) = (success_reported xs \<or> success_reported ys)"
  by (simp_all add: success_reported_def)

lemma success_errors [simp]: "success_reported (map Call_error xs) = False"
  by (induction xs) simp_all

lemma rm_errors [simp]: "list_ex is_rmSync (map Call_error xs) = False"
  by (induction xs) simp_all

subsection \<open>The steps of one unit\<close>

lemma writeFileSync_Inl:
  "writeFileSync E p c fs = Inl e \<Longrightarrow> \<exists>k. e = FsError k p"
  by (auto simp: writeFileSync_def split: option.splits node.splits)

lemma install_Inl:
  "installPresenceDependencies E C p fs = (Inl e, fs', ev) \<Longrightarrow>
     (\<exists>m. e = ExecError m) \<and>
     ev = [Call_info (Installing (basename E (getPresenceFolder E C p))),
           Call_execSync npm_install (getPresenceFolder E C p)]"
  by (auto simp: installPresenceDependencies_def Let_def
           split: if_splits prod.splits option.splits)

lemma install_Inr:
  "installPresenceDependencies E C p fs = (Inr u, fs', ev) \<Longrightarrow>
     ev = [] \<or> ev = [Call_info (Installing (basename E (getPresenceFolder E C p))),
                      Call_execSync npm_install (getPresenceFolder E C p)]"
  by (auto simp: installPresenceDependencies_def Let_def
           split: if_splits prod.splits option.splits)

lemma single_cleanup_Inl:
  "single_cleanup cfile fs = (Inl e, fs', ev) \<Longrightarrow>
     (\<exists>k. e = FsError k cfile) \<and> ev = [Call_rmSync cfile]"
  by (auto simp: single_cleanup_def rmSync_def split: if_splits option.splits node.splits)

lemma single_cleanup_Inr:
  "single_cleanup cfile fs = (Inr u, fs', ev) \<Longrightarrow>
     fs' cfile = None \<and> (ev = [] \<or> ev = [Call_rmSync cfile])"
  by (auto simp: single_cleanup_def rmSync_def existsSync_def
           split: if_splits option.splits node.splits)

subsection \<open>The single-unit path\<close>

lemma compile_single_absent:
  assumes "compile_single E C opts wc p fs = (r, fs', ev)"
    and "(\<exists>ds. r = Inr ds) \<or> (\<exists>m. r = Inl (BundlerError m))"
  shows "fs' (config_file E C p) = None"
  using assms
  by (auto simp: compile_single_def config_file_def Let_def
           split: sum.splits prod.splits option.splits
           dest!: writeFileSync_Inl install_Inl single_cleanup_Inl single_cleanup_Inr)

lemma compile_single_exec_error:
  assumes "compile_single E C opts wc p fs = (r, fs', ev)" and "r = Inl (ExecError m)"
  shows "\<not> list_ex is_rmSync ev"
  using assms
  by (auto simp: compile_single_def Let_def split: sum.splits prod.splits option.splits
           dest!: writeFileSync_Inl install_Inl install_Inr single_cleanup_Inl)

lemma compile_single_calls:
  assumes "compile_single E C opts wc p fs = (r, fs', ev)"
  shows "bundler_calls ev = [] \<or>
         (\<exists>f j. bundler_calls ev = [(single_config E wc (getPresenceFolder E C p) f, f, j)])"
  using assms
  by (auto simp: compile_single_def run_webpack_def Let_def
           split: sum.splits prod.splits option.splits
           dest!: install_Inl install_Inr single_cleanup_Inl single_cleanup_Inr)


text \<open>A single-unit call that returns has invoked the bundler exactly once.\<close>

lemma compile_single_invoked:
  assumes "compile_single E C opts wc p fs = (r, fs', ev)" and "r = Inr ds"
  shows "\<exists>f j. bundler_calls ev = [(single_config E wc (getPresenceFolder E C p) f, f, j)]"
  using assms
  by (auto simp: compile_single_def run_webpack_def Let_def
           split: sum.splits prod.splits option.splits
           dest!: install_Inl install_Inr single_cleanup_Inl single_cleanup_Inr)

subsection \<open>The first loop of the batch path\<close>

lemma batch_unit_Inr:
  assumes "batch_unit E C opts wc p fs = (Inr es, fs', ev)"
  shows "\<exists>f j. bundler_calls ev = [(batch_config E opts wc (getPresenceFolder E C p) f, f, j)]
           \<and> job_error j = None \<and> diagnostics ev = es"
  using assms
  by (auto simp: batch_unit_def run_webpack_def Let_def
           split: sum.splits prod.splits option.splits
           dest!: install_Inl install_Inr)

lemma batch_unit_Inl:
  assumes "batch_unit E C opts wc p fs = (Inl e, fs', ev)"
  shows "(bundler_calls ev = [] \<and> (\<forall>m. e \<noteq> BundlerError m)) \<or>
         (\<exists>f j m. bundler_calls ev = [(batch_config E opts wc (getPresenceFolder E C p) f, f, j)]
            \<and> job_error j = Some m \<and> e = BundlerError m)"
  using assms
  by (auto simp: batch_unit_def run_webpack_def Let_def
           split: sum.splits prod.splits option.splits
           dest!: install_Inr writeFileSync_Inl install_Inl)

lemma batch_unit_quiet:
  assumes "batch_unit E C opts wc p fs = (r, fs', ev)"
  shows "\<not> success_reported ev \<and> \<not> list_ex is_rmSync ev"
  using assms
  by (auto simp: batch_unit_def run_webpack_def Let_def
           split: sum.splits prod.splits option.splits
           dest!: install_Inl install_Inr)

lemma batch_loop_quiet:
  "batch_loop E C opts wc ps acc fs = (r, fs', ev) \<Longrightarrow>
     \<not> success_reported ev \<and> \<not> list_ex is_rmSync ev"
proof (induction ps arbitrary: acc fs r fs' ev)
  case Nil
  then show ?case by simp
next
  case (Cons p ps)
  then show ?case
    by (auto split: sum.splits prod.splits dest!: batch_unit_quiet)
qed

lemma batch_loop_calls:
  "batch_loop E C opts wc ps acc fs = (r, fs', ev) \<Longrightarrow> (c, f, j) \<in> set (bundler_calls ev) \<Longrightarrow>
     \<exists>p\<in>set ps. c = batch_config E opts wc (getPresenceFolder E C p) f"
proof (induction ps arbitrary: acc fs r fs' ev)
  case Nil
  then show ?case by simp
next
  case (Cons p ps)
  then show ?case
    by (fastforce split: sum.splits prod.splits dest!: batch_unit_Inr batch_unit_Inl)
qed

text \<open>
  What the loop returns is what it was given followed by the bundler's answers, and the
  bundler was invoked once per unit, in the order of the list.
\<close>

lemma batch_loop_Inr:
  "batch_loop E C opts wc ps acc fs = (Inr ds, fs', ev) \<Longrightarrow>
     ds = acc @ diagnostics ev \<and>
     map (\<lambda>x. cfg_context (fst x)) (bundler_calls ev)
       = map (\<lambda>p. Some (getPresenceFolder E C p)) ps"
proof (induction ps arbitrary: acc fs ds fs' ev)
  case Nil
  then show ?case by simp
next
  case (Cons p ps)
  obtain r1 fs1 ev1 where unit: "batch_unit E C opts wc p fs = (r1, fs1, ev1)"
    by (metis prod_cases3)
  with Cons.prems obtain es where r1: "r1 = Inr es"
    by (cases r1) auto
  obtain r2 fs2 ev2 where rest: "batch_loop E C opts wc ps (acc @ es) fs1 = (r2, fs2, ev2)"
    by (metis prod_cases3)
  with Cons.prems unit r1 have eqs: "r2 = Inr ds" "ev = ev1 @ ev2"
    by auto
  from batch_unit_Inr [OF unit [unfolded r1]] obtain f j where
    one: "bundler_calls ev1 = [(batch_config E opts wc (getPresenceFolder E C p) f, f, j)]"
    and es: "diagnostics ev1 = es"
    by blast
  from Cons.IH [OF rest [unfolded eqs]] have
    "ds = (acc @ es) @ diagnostics ev2"
    "map (\<lambda>x. cfg_context (fst x)) (bundler_calls ev2)
       = map (\<lambda>p. Some (getPresenceFolder E C p)) ps"
    by blast+
  with one es eqs show ?case
    by (simp add: batch_config_def)
qed

text \<open>A loop that ends normally has invoked the bundler once for each unit, in order.\<close>

lemma batch_loop_invoked:
  "batch_loop E C opts wc ps acc fs = (Inr ds, fs', ev) \<Longrightarrow>
     list_all2 (\<lambda>p x. fst x = batch_config E opts wc (getPresenceFolder E C p) (fst (snd x)))
       ps (bundler_calls ev)"
proof (induction ps arbitrary: acc fs ds fs' ev)
  case Nil
  then show ?case by simp
next
  case (Cons p ps)
  obtain r1 fs1 ev1 where unit: "batch_unit E C opts wc p fs = (r1, fs1, ev1)"
    by (metis prod_cases3)
  with Cons.prems obtain es where r1: "r1 = Inr es"
    by (cases r1) auto
  obtain r2 fs2 ev2 where rest: "batch_loop E C opts wc ps (acc @ es) fs1 = (r2, fs2, ev2)"
    by (metis prod_cases3)
  with Cons.prems unit r1 have eqs: "r2 = Inr ds" "ev = ev1 @ ev2"
    by auto
  from batch_unit_Inr [OF unit [unfolded r1]] obtain f j where
    one: "bundler_calls ev1 = [(batch_config E opts wc (getPresenceFolder E C p) f, f, j)]"
    by blast
  from Cons.IH [OF rest [unfolded eqs]] one eqs show ?case
    by simp
qed

text \<open>
  A bundler invocation that answered with an error is the last call of the loop, and the
  loop did exactly what it does on the list cut after that unit.
\<close>

lemma batch_loop_fatal:
  "batch_loop E C opts wc ps acc fs = (r, fs', ev) \<Longrightarrow>
   i < length (bundler_calls ev) \<Longrightarrow>
   job_error (snd (snd (bundler_calls ev ! i))) = Some m \<Longrightarrow>
     r = Inl (BundlerError m) \<and> length (bundler_calls ev) = Suc i \<and>
     batch_loop E C opts wc (take (Suc i) ps) acc fs = (r, fs', ev)"
proof (induction ps arbitrary: acc fs i r fs' ev)
  case Nil
  then show ?case by simp
next
  case (Cons p ps)
  obtain r1 fs1 ev1 where unit: "batch_unit E C opts wc p fs = (r1, fs1, ev1)"
    by (metis prod_cases3)
  show ?case
  proof (cases r1)
    case (Inl e)
    with unit Cons.prems(1) have same: "r = Inl e" "fs' = fs1" "ev = ev1"
      by auto
    from batch_unit_Inl [OF unit [unfolded Inl]] Cons.prems(2,3) same
    have "e = BundlerError m" "length (bundler_calls ev) = Suc i"
      by auto
    with unit Inl same show ?thesis
      by simp
  next
    case (Inr es)
    obtain r2 fs2 ev2 where rest: "batch_loop E C opts wc ps (acc @ es) fs1 = (r2, fs2, ev2)"
      by (metis prod_cases3)
    with unit Inr Cons.prems(1) have same: "r = r2" "fs' = fs2" "ev = ev1 @ ev2"
      by auto
    from batch_unit_Inr [OF unit [unfolded Inr]] obtain c f j where
      one: "bundler_calls ev1 = [(c, f, j)]" and ok: "job_error j = None"
      by blast
    from Cons.prems(2,3) one ok same obtain i' where i: "i = Suc i'"
      by (cases i) auto
    with Cons.prems(2,3) one same have
      "i' < length (bundler_calls ev2)"
      "job_error (snd (snd (bundler_calls ev2 ! i'))) = Some m"
      by auto
    from Cons.IH [OF rest this] have
      "r2 = Inl (BundlerError m)" "length (bundler_calls ev2) = Suc i'"
      "batch_loop E C opts wc (take (Suc i') ps) (acc @ es) fs1 = (r2, fs2, ev2)"
      by blast+
    with unit Inr one i same show ?thesis
      by simp
  qed
qed

subsection \<open>The second loop of the batch path\<close>

lemma batch_cleanup_Inl:
  "batch_cleanup E C ps fs = (Inl e, fs', ev) \<Longrightarrow> \<exists>k q. e = FsError k q"
  by (induction ps arbitrary: fs ev)
     (auto simp: Let_def rmSync_def
           split: if_splits sum.splits prod.splits option.splits node.splits)

lemma batch_cleanup_events:
  "batch_cleanup E C ps fs = (r, fs', ev) \<Longrightarrow>
     bundler_calls ev = [] \<and> diagnostics ev = [] \<and> \<not> success_reported ev"
  by (induction ps arbitrary: fs ev)
     (auto simp: Let_def split: if_splits sum.splits prod.splits)

lemma batch_cleanup_keeps_absent:
  "batch_cleanup E C ps fs = (r, fs', ev) \<Longrightarrow> fs q = None \<Longrightarrow> fs' q = None"
  by (induction ps arbitrary: fs ev)
     (auto simp: Let_def rmSync_def
           split: if_splits sum.splits prod.splits option.splits node.splits)

lemma batch_cleanup_absent:
  "batch_cleanup E C ps fs = (Inr u, fs', ev) \<Longrightarrow> p \<in> set ps \<Longrightarrow>
     fs' (config_file E C p) = None"
proof (induction ps arbitrary: fs ev)
  case Nil
  then show ?case by simp
next
  case (Cons q ps)
  then show ?case
    by (auto simp: Let_def rmSync_def existsSync_def config_file_def
             split: if_splits sum.splits prod.splits option.splits node.splits
             dest: batch_cleanup_keeps_absent)
qed

subsection \<open>The batch path\<close>

text \<open>The calls of the batch path are an announcement, the first loop, and no further
  bundler invocation.\<close>

lemma compile_batch_loop:
  assumes "compile_batch E C opts wc ps fs = (r, fs', ev)"
  shows "\<exists>r1 fs1 ev1.
           batch_loop E C opts wc ps [] fs = (r1, fs1, ev1)
         \<and> bundler_calls ev = bundler_calls ev1 \<and> diagnostics ev = diagnostics ev1
         \<and> (\<forall>e. r1 = Inl e \<longrightarrow>
               r = Inl e \<and> fs' = fs1 \<and> ev = Call_info (Compiling_batch (length ps)) # ev1)
         \<and> (\<forall>ds. r = Inr ds \<longrightarrow> ds = drop_wrappers (diagnostics ev1) \<and> (\<exists>es. r1 = Inr es))
         \<and> (\<forall>m. r = Inl (ExecError m) \<longrightarrow>
               ev = Call_info (Compiling_batch (length ps)) # ev1)"
proof -
  obtain r1 fs1 ev1 where loop: "batch_loop E C opts wc ps [] fs = (r1, fs1, ev1)"
    by (metis prod_cases3)
  have "bundler_calls ev = bundler_calls ev1" "diagnostics ev = diagnostics ev1"
    using assms loop
    by (auto simp: compile_batch_def Let_def split: sum.splits prod.splits if_splits
             dest!: batch_cleanup_events)
  moreover have "r = Inl e \<and> fs' = fs1 \<and> ev = Call_info (Compiling_batch (length ps)) # ev1"
    if "r1 = Inl e" for e
    using assms loop that by (simp add: compile_batch_def)
  moreover have "ds = drop_wrappers (diagnostics ev1) \<and> (\<exists>es. r1 = Inr es)"
    if "r = Inr ds" for ds
    using assms loop that
    by (auto simp: compile_batch_def Let_def split: sum.splits prod.splits if_splits
             dest!: batch_loop_Inr)
  moreover have "ev = Call_info (Compiling_batch (length ps)) # ev1"
    if "r = Inl (ExecError m)" for m
    using assms loop that
    by (auto simp: compile_batch_def Let_def split: sum.splits prod.splits if_splits
             dest!: batch_cleanup_Inl)
  ultimately show ?thesis
    using loop by blast
qed

lemma compile_batch_absent:
  assumes "compile_batch E C opts wc ps fs = (r, fs', ev)" and "r = Inr ds" and "p \<in> set ps"
  shows "fs' (config_file E C p) = None"
  using assms
  by (auto simp: compile_batch_def Let_def split: sum.splits prod.splits
           dest: batch_cleanup_absent)

lemma compile_batch_exec_error:
  assumes "compile_batch E C opts wc ps fs = (r, fs', ev)" and "r = Inl (ExecError m)"
  shows "\<not> list_ex is_rmSync ev"
proof -
  from compile_batch_loop [OF assms(1)] assms(2) obtain r1 fs1 ev1 where
    "batch_loop E C opts wc ps [] fs = (r1, fs1, ev1)"
    "ev = Call_info (Compiling_batch (length ps)) # ev1"
    by blast
  then show ?thesis
    using batch_loop_quiet by fastforce
qed

lemma compile_batch_calls:
  assumes "compile_batch E C opts wc ps fs = (r, fs', ev)"
    and "(c, f, j) \<in> set (bundler_calls ev)"
  shows "\<exists>p\<in>set ps. c = batch_config E opts wc (getPresenceFolder E C p) f"
proof -
  from compile_batch_loop [OF assms(1)] obtain r1 fs1 ev1 where
    "batch_loop E C opts wc ps [] fs = (r1, fs1, ev1)"
    "bundler_calls ev = bundler_calls ev1"
    by blast
  with assms(2) show ?thesis
    using batch_loop_calls by metis
qed

lemma compile_batch_returns:
  assumes "compile_batch E C opts wc ps fs = (r, fs', ev)" and "r = Inr ds"
  shows "ds = drop_wrappers (diagnostics ev)"
    and "map (\<lambda>x. cfg_context (fst x)) (bundler_calls ev)
           = map (\<lambda>p. Some (getPresenceFolder E C p)) ps"
proof -
  from compile_batch_loop [OF assms(1)] assms(2) obtain es fs1 ev1 where
    loop: "batch_loop E C opts wc ps [] fs = (Inr es, fs1, ev1)"
    and same: "bundler_calls ev = bundler_calls ev1" "diagnostics ev = diagnostics ev1"
    and ds: "ds = drop_wrappers (diagnostics ev1)"
    by blast
  from batch_loop_Inr [OF loop] same ds
  show "ds = drop_wrappers (diagnostics ev)"
    and "map (\<lambda>x. cfg_context (fst x)) (bundler_calls ev)
           = map (\<lambda>p. Some (getPresenceFolder E C p)) ps"
    by simp_all
qed

lemma compile_batch_invoked:
  assumes "compile_batch E C opts wc ps fs = (r, fs', ev)" and "r = Inr ds"
  shows "list_all2 (\<lambda>p x. fst x = batch_config E opts wc (getPresenceFolder E C p) (fst (snd x)))
           ps (bundler_calls ev)"
proof -
  from compile_batch_loop [OF assms(1)] assms(2) obtain es fs1 ev1 where
    loop: "batch_loop E C opts wc ps [] fs = (Inr es, fs1, ev1)"
    and same: "bundler_calls ev = bundler_calls ev1"
    by blast
  from batch_loop_invoked [OF loop] same show ?thesis
    by simp
qed

lemma compile_batch_fatal:
  assumes run: "compile_batch E C opts wc ps fs = (r, fs', ev)"
    and i: "i < length (bundler_calls ev)"
    and m: "job_error (snd (snd (bundler_calls ev ! i))) = Some m"
  shows "r = Inl (BundlerError m)" and "length (bundler_calls ev) = Suc i"
    and "\<not> success_reported ev"
    and "\<exists>ev'. compile_batch E C opts wc (take (Suc i) ps) fs = (r, fs', ev') \<and> tl ev' = tl ev"
proof -
  from compile_batch_loop [OF run] obtain r1 fs1 ev1 where
    loop: "batch_loop E C opts wc ps [] fs = (r1, fs1, ev1)"
    and calls: "bundler_calls ev = bundler_calls ev1"
    and thrown: "\<forall>e. r1 = Inl e \<longrightarrow> r = Inl e \<and> fs' = fs1
           \<and> ev = Call_info (Compiling_batch (length ps)) # ev1"
    by blast
  from batch_loop_fatal [OF loop i [unfolded calls] m [unfolded calls]]
  have r1: "r1 = Inl (BundlerError m)" and n: "length (bundler_calls ev1) = Suc i"
    and pre: "batch_loop E C opts wc (take (Suc i) ps) [] fs = (r1, fs1, ev1)"
    by blast+
  from thrown r1 have same: "r = r1" "fs' = fs1"
    "ev = Call_info (Compiling_batch (length ps)) # ev1"
    by simp_all
  show "r = Inl (BundlerError m)"
    using same r1 by simp
  show "length (bundler_calls ev) = Suc i"
    using calls n by simp
  show "\<not> success_reported ev"
    using same batch_loop_quiet [OF loop] by simp
  show "\<exists>ev'. compile_batch E C opts wc (take (Suc i) ps) fs = (r, fs', ev') \<and> tl ev' = tl ev"
    using pre r1 same by (simp add: compile_batch_def)
qed

subsection \<open>From compilePresence to its two paths\<close>

lemma single_run:
  "compile_single E C (default_output E C p (set_defaults opts))
       (webpackConfig C (set_defaults opts)) p fs
     = (outcome (compilePresence E C (Single p) opts fs),
        fs_after (compilePresence E C (Single p) opts fs),
        events (compilePresence E C (Single p) opts fs))"
  by (simp add: compilePresence_def Let_def split: prod.splits)

lemma batch_run:
  "compile_batch E C (set_defaults opts) (webpackConfig C (set_defaults opts)) ps fs
     = (outcome (compilePresence E C (Batch ps) opts fs),
        fs_after (compilePresence E C (Batch ps) opts fs),
        events (compilePresence E C (Batch ps) opts fs))"
  by (simp add: compilePresence_def Let_def split: prod.splits)

lemma emit_set_defaults: "(emit (set_defaults opts) = Some True) = (emit opts \<noteq> Some False)"
  by (cases "emit opts") (auto simp: set_defaults_def)

section \<open>The claims\<close>

text \<open>
  C1 as stated fails. In the small world the installer fails in unit \<^verbatim>\<open>e\<close>: the
  single-unit call throws that failure, the directory had no \<^verbatim>\<open>tsconfig.json\<close> before
  the call, and the one the call wrote is still there when it throws.
\<close>

theorem config_file_left_behind_counterexample:
  "outcome (demo (Single ''e'') no_options) = Inl (ExecError ''npm ERR!'')
   \<and> \<not> existsSync demo_fs (config_file demo_env demo_compiler ''e'')
   \<and> fs_after (demo (Single ''e'') no_options) (config_file demo_env demo_compiler ''e'')
       = Some (File tsconfig)"
  by code_simp

text \<open>
  C1, as amended. The claim promises that the unit's \<^verbatim>\<open>tsconfig.json\<close> is removed on every
  exit path. What holds on every path that removes it: when \<^verbatim>\<open>compilePresence\<close> returns
  a list, with or without diagnostics, the file is absent from the directory of every unit
  of the call; in a single-unit call it is also absent when the bundler's fatal error is
  thrown. When the installer's failure is thrown, no removal was attempted.
\<close>

theorem config_file_removed:
  fixes E C t opts fs
  defines "r \<equiv> compilePresence E C t opts fs"
  shows "(\<forall>ds. outcome r = Inr ds \<longrightarrow>
            (\<forall>p\<in>set (units t). \<not> existsSync (fs_after r) (config_file E C p)))
       \<and> (\<forall>p m. t = Single p \<and> outcome r = Inl (BundlerError m) \<longrightarrow>
            \<not> existsSync (fs_after r) (config_file E C p))
       \<and> (\<forall>m. outcome r = Inl (ExecError m) \<longrightarrow> \<not> list_ex is_rmSync (events r))"
proof (cases t)
  case (Single p)
  have run: "compile_single E C (default_output E C p (set_defaults opts))
       (webpackConfig C (set_defaults opts)) p fs = (outcome r, fs_after r, events r)"
    unfolding r_def Single by (rule single_run)
  show ?thesis
    using compile_single_absent [OF run] compile_single_exec_error [OF run] Single
    by (auto simp: existsSync_def)
next
  case (Batch ps)
  have run: "compile_batch E C (set_defaults opts) (webpackConfig C (set_defaults opts)) ps fs
       = (outcome r, fs_after r, events r)"
    unfolding r_def Batch by (rule batch_run)
  show ?thesis
    using compile_batch_absent [OF run] compile_batch_exec_error [OF run] Batch
    by (auto simp: existsSync_def)
qed

text \<open>
  C1 as amended, run: unit \<^verbatim>\<open>a\<close> returns and its stale file is gone; unit \<^verbatim>\<open>c\<close> throws
  the bundler's error and its file is gone; unit \<^verbatim>\<open>e\<close> throws the installer's failure and
  no removal was attempted; the batch of \<^verbatim>\<open>a\<close> and \<^verbatim>\<open>b\<close> returns and both files are gone.
\<close>

theorem config_file_removed_witness:
  "outcome (demo (Single ''a'') no_options) = Inr []
   \<and> existsSync demo_fs (config_file demo_env demo_compiler ''a'')
   \<and> \<not> existsSync (fs_after (demo (Single ''a'') no_options))
         (config_file demo_env demo_compiler ''a'')
   \<and> outcome (demo (Single ''c'') no_options) = Inl (BundlerError ''bundler crashed'')
   \<and> \<not> existsSync (fs_after (demo (Single ''c'') no_options))
         (config_file demo_env demo_compiler ''c'')
   \<and> outcome (demo (Single ''e'') no_options) = Inl (ExecError ''npm ERR!'')
   \<and> \<not> list_ex is_rmSync (events (demo (Single ''e'') no_options))
   \<and> outcome (demo (Batch [''a'', ''b'']) no_options) = Inr [type_error]
   \<and> \<not> existsSync (fs_after (demo (Batch [''a'', ''b'']) no_options))
         (config_file demo_env demo_compiler ''a'')
   \<and> \<not> existsSync (fs_after (demo (Batch [''a'', ''b'']) no_options))
         (config_file demo_env demo_compiler ''b'')"
proof -
  have a: "outcome (demo (Single ''a'') no_options) = Inr []"
    by code_simp
  have c: "outcome (demo (Single ''c'') no_options) = Inl (BundlerError ''bundler crashed'')"
    by code_simp
  have e: "outcome (demo (Single ''e'') no_options) = Inl (ExecError ''npm ERR!'')"
    by code_simp
  have ab: "outcome (demo (Batch [''a'', ''b'']) no_options) = Inr [type_error]"
    by code_simp
  have stale: "existsSync demo_fs (config_file demo_env demo_compiler ''a'')"
    by code_simp
  from a c e ab stale
    config_file_removed [where E = demo_env and C = demo_compiler and t = "Single ''a''"
      and opts = no_options and fs = demo_fs]
    config_file_removed [where E = demo_env and C = demo_compiler and t = "Single ''c''"
      and opts = no_options and fs = demo_fs]
    config_file_removed [where E = demo_env and C = demo_compiler and t = "Single ''e''"
      and opts = no_options and fs = demo_fs]
    config_file_removed [where E = demo_env and C = demo_compiler
      and t = "Batch [''a'', ''b'']" and opts = no_options and fs = demo_fs]
  show ?thesis
    unfolding demo_def by simp
qed

text \<open>
  C2, on the code. Unit \<^verbatim>\<open>d\<close> makes the bundler answer with one diagnostic, named
  \<^verbatim>\<open>ModuleBuildError\<close>. The single-unit call decides on the unfiltered list (line 198)
  and filters afterwards (line 206): it returns the empty list and reports no success.
  The batch call on the same unit filters first (line 147, then line 149): it returns the
  empty list and reports success.
\<close>

theorem single_decides_before_filtering:
  "outcome (demo (Single ''d'') no_options) = Inr []
   \<and> diagnostics (events (demo (Single ''d'') no_options)) = [wrapper_error]
   \<and> \<not> success_reported (events (demo (Single ''d'') no_options))
   \<and> outcome (demo (Batch [''d'']) no_options) = Inr []
   \<and> success_reported (events (demo (Batch [''d'']) no_options))"
  by code_simp

text \<open>
  C3 as stated fails. A batch call on unit \<^verbatim>\<open>a\<close> with \<^verbatim>\<open>emit\<close> enabled and
  \<^verbatim>\<open>options.output\<close> given as \<^verbatim>\<open>/out\<close> invokes the bundler once, with the unit's own
  directory as output path.
\<close>

theorem batch_ignores_output_counterexample:
  "emit (options_after (demo (Batch [''a'']) out_options)) = Some True
   \<and> opt_output (options_after (demo (Batch [''a'']) out_options)) = Some ''/out''
   \<and> map (\<lambda>x. map_option path (cfg_output (fst x)))
         (bundler_calls (events (demo (Batch [''a'']) out_options)))
       = [Some (Some ''/r/websites/a/a'')]"
  by code_simp

text \<open>
  C3, as amended. With \<^verbatim>\<open>emit\<close> enabled: a single-unit call that is given a non-empty
  \<^verbatim>\<open>options.output\<close>, on a compiler whose constructor override leaves \<^verbatim>\<open>output\<close>
  alone, passes that directory to the bundler as output path; a batch call passes, for
  every unit, the unit's own source directory, whatever \<^verbatim>\<open>options.output\<close> is.
\<close>

theorem bundler_output_path:
  fixes E C t opts fs
  defines "r \<equiv> compilePresence E C t opts fs"
  shows "(\<forall>p out. t = Single p \<and> emit opts \<noteq> Some False \<and> opt_output opts = Some out
             \<and> out \<noteq> [] \<and> keeps_output C \<longrightarrow>
            (\<forall>x\<in>set (bundler_calls (events r)).
               map_option path (cfg_output (fst x)) = Some (Some out)))
       \<and> (\<forall>ps. t = Batch ps \<and> emit opts \<noteq> Some False \<longrightarrow>
            (\<forall>x\<in>set (bundler_calls (events r)). \<exists>p\<in>set ps.
               cfg_context (fst x) = Some (getPresenceFolder E C p) \<and>
               map_option path (cfg_output (fst x)) = Some (Some (getPresenceFolder E C p))))"
proof (cases t)
  case (Single p)
  have run: "compile_single E C (default_output E C p (set_defaults opts))
       (webpackConfig C (set_defaults opts)) p fs = (outcome r, fs_after r, events r)"
    unfolding r_def Single by (rule single_run)
  have "map_option path (cfg_output (single_config E (webpackConfig C (set_defaults opts)) d f))
          = Some (Some out)"
    if "emit opts \<noteq> Some False" "opt_output opts = Some out" "keeps_output C" for d f out
    using that
    by (auto simp: single_config_def webpackConfig_def spread_def spread_key_def
                   keeps_output_def emit_set_defaults set_defaults_def
             split: option.splits)
  with compile_single_calls [OF run] Single show ?thesis
    by auto
next
  case (Batch ps)
  have run: "compile_batch E C (set_defaults opts) (webpackConfig C (set_defaults opts)) ps fs
       = (outcome r, fs_after r, events r)"
    unfolding r_def Batch by (rule batch_run)
  have "cfg_context (batch_config E (set_defaults opts) wc d f) = Some d \<and>
        map_option path (cfg_output (batch_config E (set_defaults opts) wc d f)) = Some (Some d)"
    if "emit opts \<noteq> Some False" for wc d f
    using that by (simp add: batch_config_def emit_set_defaults)
  with compile_batch_calls [OF run] Batch show ?thesis
    by fastforce
qed

text \<open>
  C3 as amended, run with \<^verbatim>\<open>options.output\<close> given as \<^verbatim>\<open>/out\<close>: the single-unit call on
  \<^verbatim>\<open>a\<close> invokes the bundler, with \<^verbatim>\<open>/out\<close>; the batch call on \<^verbatim>\<open>a\<close> and \<^verbatim>\<open>b\<close> invokes it,
  each time with the unit's own directory.
\<close>

theorem bundler_output_path_witness:
  "emit out_options \<noteq> Some False \<and> opt_output out_options = Some ''/out''
   \<and> keeps_output demo_compiler
   \<and> bundler_calls (events (demo (Single ''a'') out_options)) \<noteq> []
   \<and> list_all (\<lambda>x. map_option path (cfg_output (fst x)) = Some (Some ''/out''))
         (bundler_calls (events (demo (Single ''a'') out_options)))
   \<and> bundler_calls (events (demo (Batch [''a'', ''b'']) out_options)) \<noteq> []
   \<and> list_all
         (\<lambda>x. \<exists>p\<in>set [''a'', ''b''].
            cfg_context (fst x) = Some (getPresenceFolder demo_env demo_compiler p) \<and>
            map_option path (cfg_output (fst x))
              = Some (Some (getPresenceFolder demo_env demo_compiler p)))
         (bundler_calls (events (demo (Batch [''a'', ''b'']) out_options)))"
proof -
  have h1: "emit out_options \<noteq> Some False"
    by code_simp
  have h2: "opt_output out_options = Some ''/out''"
    by code_simp
  have h3: "keeps_output demo_compiler"
    by code_simp
  have h4: "bundler_calls (events (demo (Single ''a'') out_options)) \<noteq> []"
    by code_simp
  have h5: "bundler_calls (events (demo (Batch [''a'', ''b'']) out_options)) \<noteq> []"
    by code_simp
  from h1 h2 h3 h4 h5
    bundler_output_path [where E = demo_env and C = demo_compiler and t = "Single ''a''"
      and opts = out_options and fs = demo_fs]
    bundler_output_path [where E = demo_env and C = demo_compiler
      and t = "Batch [''a'', ''b'']" and opts = out_options and fs = demo_fs]
  show ?thesis
    unfolding demo_def list_all_iff by simp
qed

text \<open>
  C4. In a batch call, when the bundler invocation number \<open>i + 1\<close> answers with a fatal
  error \<open>m\<close>: that error is thrown; it was the last bundler invocation; no success message
  is reported; and, apart from the announced count, the call made exactly the calls, and
  left exactly the filesystem, of the call on the first \<open>i + 1\<close> units alone, so nothing
  was written, installed or bundled for a later unit.
\<close>

theorem batch_stops_at_fatal_error:
  fixes E C ps opts fs i
  defines "r \<equiv> compilePresence E C (Batch ps) opts fs"
  defines "r' \<equiv> compilePresence E C (Batch (take (Suc i) ps)) opts fs"
  assumes "i < length (bundler_calls (events r))"
    and "job_error (snd (snd (bundler_calls (events r) ! i))) = Some m"
  shows "outcome r = Inl (BundlerError m)
       \<and> length (bundler_calls (events r)) = Suc i
       \<and> \<not> success_reported (events r)
       \<and> outcome r' = outcome r \<and> fs_after r' = fs_after r \<and> tl (events r') = tl (events r)"
proof -
  have run: "compile_batch E C (set_defaults opts) (webpackConfig C (set_defaults opts)) ps fs
       = (outcome r, fs_after r, events r)"
    unfolding r_def by (rule batch_run)
  have run': "compile_batch E C (set_defaults opts) (webpackConfig C (set_defaults opts))
       (take (Suc i) ps) fs = (outcome r', fs_after r', events r')"
    unfolding r'_def by (rule batch_run)
  from compile_batch_fatal [OF run assms(3,4)] run' show ?thesis
    by auto
qed

text \<open>
  C4, run on the batch of \<^verbatim>\<open>a\<close>, \<^verbatim>\<open>c\<close> and \<^verbatim>\<open>b\<close>, where the second bundler invocation
  fails.
\<close>

theorem batch_stops_at_fatal_error_witness:
  "1 < length (bundler_calls (events (demo (Batch [''a'', ''c'', ''b'']) no_options)))
   \<and> job_error (snd (snd
         (bundler_calls (events (demo (Batch [''a'', ''c'', ''b'']) no_options)) ! 1)))
       = Some ''bundler crashed''
   \<and> outcome (demo (Batch [''a'', ''c'', ''b'']) no_options)
       = Inl (BundlerError ''bundler crashed'')
   \<and> length (bundler_calls (events (demo (Batch [''a'', ''c'', ''b'']) no_options))) = 2
   \<and> \<not> success_reported (events (demo (Batch [''a'', ''c'', ''b'']) no_options))
   \<and> tl (events (demo (Batch (take 2 [''a'', ''c'', ''b''])) no_options))
       = tl (events (demo (Batch [''a'', ''c'', ''b'']) no_options))"
proof -
  have h1: "1 < length (bundler_calls (events (demo (Batch [''a'', ''c'', ''b'']) no_options)))"
    by code_simp
  have h2: "job_error (snd (snd
         (bundler_calls (events (demo (Batch [''a'', ''c'', ''b'']) no_options)) ! 1)))
       = Some ''bundler crashed''"
    by code_simp
  from h1 h2
    batch_stops_at_fatal_error [where i = 1 and E = demo_env and C = demo_compiler
      and ps = "[''a'', ''c'', ''b'']" and opts = no_options and fs = demo_fs
      and m = "''bundler crashed''", folded demo_def]
  show ?thesis
    by (simp add: numeral_2_eq_2)
qed

text \<open>
  C5 as stated fails. Unit \<^verbatim>\<open>d\<close> makes the bundler answer with one diagnostic, named
  \<^verbatim>\<open>ModuleBuildError\<close>, and nothing else: no underlying diagnostic is present, so the list
  the claim describes keeps it. The batch call on \<^verbatim>\<open>d\<close> returns the empty list.
\<close>

theorem batch_drops_lone_wrapper_counterexample:
  "concat (map answered (bundler_calls (events (demo (Batch [''d'']) no_options))))
     = [wrapper_error]
   \<and> name wrapper_error = ''ModuleBuildError''
   \<and> outcome (demo (Batch [''d'']) no_options) = Inr []"
  by code_simp

text \<open>
  C5, as amended. A batch call that returns, returns the bundler's answers, concatenated in
  the order of its invocations and each in the order given, without any diagnostic named
  \<^verbatim>\<open>ModuleBuildError\<close>, whether or not an underlying diagnostic is present; the bundler was
  invoked once per unit, in the caller's order.
\<close>

theorem batch_returns_filtered_concatenation:
  fixes E C ps opts fs
  defines "r \<equiv> compilePresence E C (Batch ps) opts fs"
  assumes "outcome r = Inr ds"
  shows "ds = filter (\<lambda>e. name e \<noteq> ''ModuleBuildError'')
                (concat (map answered (bundler_calls (events r))))
       \<and> map (\<lambda>x. cfg_context (fst x)) (bundler_calls (events r))
           = map (\<lambda>p. Some (getPresenceFolder E C p)) ps"
proof -
  have run: "compile_batch E C (set_defaults opts) (webpackConfig C (set_defaults opts)) ps fs
       = (outcome r, fs_after r, events r)"
    unfolding r_def by (rule batch_run)
  from compile_batch_returns [OF run assms(2)] show ?thesis
    by (simp add: drop_wrappers_def diagnostics_answered)
qed

text \<open>
  C5 as amended, run on the batch of \<^verbatim>\<open>a\<close>, which builds clean, and \<^verbatim>\<open>b\<close>, which yields a type
  error and its wrapper: the call returns the type error alone.
\<close>

theorem batch_returns_filtered_concatenation_witness:
  "outcome (demo (Batch [''a'', ''b'']) no_options) = Inr [type_error]
   \<and> [type_error] = filter (\<lambda>e. name e \<noteq> ''ModuleBuildError'')
        (concat (map answered
           (bundler_calls (events (demo (Batch [''a'', ''b'']) no_options)))))
   \<and> map (\<lambda>x. cfg_context (fst x))
         (bundler_calls (events (demo (Batch [''a'', ''b'']) no_options)))
       = map (\<lambda>p. Some (getPresenceFolder demo_env demo_compiler p)) [''a'', ''b'']"
proof -
  have h: "outcome (demo (Batch [''a'', ''b'']) no_options) = Inr [type_error]"
    by code_simp
  from h
    batch_returns_filtered_concatenation [where E = demo_env and C = demo_compiler
      and ps = "[''a'', ''b'']" and opts = no_options and fs = demo_fs and ds = "[type_error]",
      folded demo_def]
  show ?thesis
    by simp
qed

text \<open>
  C6. A call that returns has invoked the bundler exactly once for each of its units, in the
  caller's order, each time with the unit's directory as context and with, as entry points,
  the primary one and the secondary one when \<^verbatim>\<open>iframe.ts\<close> exists in the unit's directory
  at the moment of the invocation, and the primary one alone when it does not. The same
  holds of every invocation made by a call that throws.
\<close>

theorem entry_points_follow_iframe:
  fixes E C t opts fs
  defines "r \<equiv> compilePresence E C t opts fs"
  shows "(\<forall>x\<in>set (bundler_calls (events r)). \<exists>p\<in>set (units t).
            cfg_context (fst x) = Some (getPresenceFolder E C p) \<and>
            cfg_entry (fst x) =
              Some (if existsSync (fst (snd x))
                         (resolve E [getPresenceFolder E C p, ''iframe.ts''])
                    then [(''presence'', ''./presence.ts''), (''iframe'', ''./iframe.ts'')]
                    else [(''presence'', ''./presence.ts'')]))
       \<and> (\<forall>ds. outcome r = Inr ds \<longrightarrow>
            list_all2
              (\<lambda>p x. cfg_context (fst x) = Some (getPresenceFolder E C p) \<and>
                 cfg_entry (fst x) =
                   Some (if existsSync (fst (snd x))
                              (resolve E [getPresenceFolder E C p, ''iframe.ts''])
                         then [(''presence'', ''./presence.ts''), (''iframe'', ''./iframe.ts'')]
                         else [(''presence'', ''./presence.ts'')]))
              (units t) (bundler_calls (events r)))"
proof (cases t)
  case (Single p)
  have run: "compile_single E C (default_output E C p (set_defaults opts))
       (webpackConfig C (set_defaults opts)) p fs = (outcome r, fs_after r, events r)"
    unfolding r_def Single by (rule single_run)
  have cfg: "cfg_context (single_config E wc d f) = Some d \<and>
        cfg_entry (single_config E wc d f) =
          Some (if existsSync f (resolve E [d, ''iframe.ts''])
                then [(''presence'', ''./presence.ts''), (''iframe'', ''./iframe.ts'')]
                else [(''presence'', ''./presence.ts'')])" for wc d f
    by (simp add: single_config_def entry_points_def)
  have every: "\<forall>x\<in>set (bundler_calls (events r)). \<exists>p\<in>set (units t).
            cfg_context (fst x) = Some (getPresenceFolder E C p) \<and>
            cfg_entry (fst x) =
              Some (if existsSync (fst (snd x))
                         (resolve E [getPresenceFolder E C p, ''iframe.ts''])
                    then [(''presence'', ''./presence.ts''), (''iframe'', ''./iframe.ts'')]
                    else [(''presence'', ''./presence.ts'')])"
    using compile_single_calls [OF run] cfg Single by auto
  have once: "list_all2
              (\<lambda>p x. cfg_context (fst x) = Some (getPresenceFolder E C p) \<and>
                 cfg_entry (fst x) =
                   Some (if existsSync (fst (snd x))
                              (resolve E [getPresenceFolder E C p, ''iframe.ts''])
                         then [(''presence'', ''./presence.ts''), (''iframe'', ''./iframe.ts'')]
                         else [(''presence'', ''./presence.ts'')]))
              (units t) (bundler_calls (events r))"
    if "outcome r = Inr ds" for ds
    using compile_single_invoked [OF run that] cfg Single by auto
  from every once show ?thesis
    by blast
next
  case (Batch ps)
  have run: "compile_batch E C (set_defaults opts) (webpackConfig C (set_defaults opts)) ps fs
       = (outcome r, fs_after r, events r)"
    unfolding r_def Batch by (rule batch_run)
  have cfg: "cfg_context (batch_config E o' wc d f) = Some d \<and>
        cfg_entry (batch_config E o' wc d f) =
          Some (if existsSync f (resolve E [d, ''iframe.ts''])
                then [(''presence'', ''./presence.ts''), (''iframe'', ''./iframe.ts'')]
                else [(''presence'', ''./presence.ts'')])" for o' wc d f
    by (simp add: batch_config_def entry_points_def)
  have every: "\<forall>x\<in>set (bundler_calls (events r)). \<exists>p\<in>set (units t).
            cfg_context (fst x) = Some (getPresenceFolder E C p) \<and>
            cfg_entry (fst x) =
              Some (if existsSync (fst (snd x))
                         (resolve E [getPresenceFolder E C p, ''iframe.ts''])
                    then [(''presence'', ''./presence.ts''), (''iframe'', ''./iframe.ts'')]
                    else [(''presence'', ''./presence.ts'')])"
    using compile_batch_calls [OF run] cfg Batch by fastforce
  have once: "list_all2
              (\<lambda>p x. cfg_context (fst x) = Some (getPresenceFolder E C p) \<and>
                 cfg_entry (fst x) =
                   Some (if existsSync (fst (snd x))
                              (resolve E [getPresenceFolder E C p, ''iframe.ts''])
                         then [(''presence'', ''./presence.ts''), (''iframe'', ''./iframe.ts'')]
                         else [(''presence'', ''./presence.ts'')]))
              (units t) (bundler_calls (events r))"
    if "outcome r = Inr ds" for ds
  proof -
    from compile_batch_invoked [OF run that] have
      "list_all2
         (\<lambda>p x. fst x = batch_config E (set_defaults opts) (webpackConfig C (set_defaults opts))
                          (getPresenceFolder E C p) (fst (snd x)))
         ps (bundler_calls (events r))" .
    then show ?thesis
      unfolding Batch units.simps
      by (rule list_all2_mono) (simp add: cfg)
  qed
  from every once show ?thesis
    by blast
qed

text \<open>
  C6, run. The batch of \<^verbatim>\<open>a\<close>, which has an \<^verbatim>\<open>iframe.ts\<close>, and \<^verbatim>\<open>b\<close>, which has none,
  returns: the bundler was invoked twice, for \<^verbatim>\<open>a\<close> with two entry points and for \<^verbatim>\<open>b\<close>
  with one. The single-unit calls on \<^verbatim>\<open>a\<close> and on \<^verbatim>\<open>b\<close> return: one invocation each, with
  two entry points and with one.
\<close>

theorem entry_points_follow_iframe_witness:
  "bundler_calls (events (demo (Batch [''a'', ''b'']) no_options)) \<noteq> []
   \<and> list_all
        (\<lambda>x. \<exists>p\<in>set (units (Batch [''a'', ''b''])).
           cfg_context (fst x) = Some (getPresenceFolder demo_env demo_compiler p) \<and>
           cfg_entry (fst x) =
             Some (if existsSync (fst (snd x))
                        (resolve demo_env
                           [getPresenceFolder demo_env demo_compiler p, ''iframe.ts''])
                   then [(''presence'', ''./presence.ts''), (''iframe'', ''./iframe.ts'')]
                   else [(''presence'', ''./presence.ts'')]))
        (bundler_calls (events (demo (Batch [''a'', ''b'']) no_options)))
   \<and> outcome (demo (Batch [''a'', ''b'']) no_options) = Inr [type_error]
   \<and> list_all2
        (\<lambda>p x. cfg_context (fst x) = Some (getPresenceFolder demo_env demo_compiler p) \<and>
           cfg_entry (fst x) =
             Some (if existsSync (fst (snd x))
                        (resolve demo_env
                           [getPresenceFolder demo_env demo_compiler p, ''iframe.ts''])
                   then [(''presence'', ''./presence.ts''), (''iframe'', ''./iframe.ts'')]
                   else [(''presence'', ''./presence.ts'')]))
        (units (Batch [''a'', ''b'']))
        (bundler_calls (events (demo (Batch [''a'', ''b'']) no_options)))
   \<and> map (\<lambda>x. cfg_entry (fst x))
         (bundler_calls (events (demo (Batch [''a'', ''b'']) no_options)))
       = [Some [(''presence'', ''./presence.ts''), (''iframe'', ''./iframe.ts'')],
          Some [(''presence'', ''./presence.ts'')]]
   \<and> outcome (demo (Single ''a'') no_options) = Inr []
   \<and> list_all2
        (\<lambda>p x. cfg_context (fst x) = Some (getPresenceFolder demo_env demo_compiler p) \<and>
           cfg_entry (fst x) =
             Some (if existsSync (fst (snd x))
                        (resolve demo_env
                           [getPresenceFolder demo_env demo_compiler p, ''iframe.ts''])
                   then [(''presence'', ''./presence.ts''), (''iframe'', ''./iframe.ts'')]
                   else [(''presence'', ''./presence.ts'')]))
        (units (Single ''a''))
        (bundler_calls (events (demo (Single ''a'') no_options)))
   \<and> map (\<lambda>x. cfg_entry (fst x)) (bundler_calls (events (demo (Single ''a'') no_options)))
       = [Some [(''presence'', ''./presence.ts''), (''iframe'', ''./iframe.ts'')]]
   \<and> outcome (demo (Single ''b'') no_options) = Inr [type_error]
   \<and> list_all2
        (\<lambda>p x. cfg_context (fst x) = Some (getPresenceFolder demo_env demo_compiler p) \<and>
           cfg_entry (fst x) =
             Some (if existsSync (fst (snd x))
                        (resolve demo_env
                           [getPresenceFolder demo_env demo_compiler p, ''iframe.ts''])
                   then [(''presence'', ''./presence.ts''), (''iframe'', ''./iframe.ts'')]
                   else [(''presence'', ''./presence.ts'')]))
        (units (Single ''b''))
        (bundler_calls (events (demo (Single ''b'') no_options)))
   \<and> map (\<lambda>x. cfg_entry (fst x)) (bundler_calls (events (demo (Single ''b'') no_options)))
       = [Some [(''presence'', ''./presence.ts'')]]"
proof -
  have h1: "bundler_calls (events (demo (Batch [''a'', ''b'']) no_options)) \<noteq> []"
    by code_simp
  have h2: "outcome (demo (Batch [''a'', ''b'']) no_options) = Inr [type_error]"
    by code_simp
  have h3: "map (\<lambda>x. cfg_entry (fst x))
         (bundler_calls (events (demo (Batch [''a'', ''b'']) no_options)))
       = [Some [(''presence'', ''./presence.ts''), (''iframe'', ''./iframe.ts'')],
          Some [(''presence'', ''./presence.ts'')]]"
    by code_simp
  have h4: "outcome (demo (Single ''a'') no_options) = Inr []"
    by code_simp
  have h5: "map (\<lambda>x. cfg_entry (fst x))
         (bundler_calls (events (demo (Single ''a'') no_options)))
       = [Some [(''presence'', ''./presence.ts''), (''iframe'', ''./iframe.ts'')]]"
    by code_simp
  have h6: "outcome (demo (Single ''b'') no_options) = Inr [type_error]"
    by code_simp
  have h7: "map (\<lambda>x. cfg_entry (fst x))
         (bundler_calls (events (demo (Single ''b'') no_options)))
       = [Some [(''presence'', ''./presence.ts'')]]"
    by code_simp
  from h1 h2 h3 h4 h5 h6 h7
    entry_points_follow_iframe [where E = demo_env and C = demo_compiler
      and t = "Batch [''a'', ''b'']" and opts = no_options and fs = demo_fs, folded demo_def]
    entry_points_follow_iframe [where E = demo_env and C = demo_compiler
      and t = "Single ''a''" and opts = no_options and fs = demo_fs, folded demo_def]
    entry_points_follow_iframe [where E = demo_env and C = demo_compiler
      and t = "Single ''b''" and opts = no_options and fs = demo_fs, folded demo_def]
  show ?thesis
    unfolding list_all_iff by blast
qed

text \<open>
  C7. \<^verbatim>\<open>installPresenceDependencies\<close> calls the installer exactly when \<^verbatim>\<open>package.json\<close>
  exists in the unit's directory, and then with that directory as working directory;
  without the manifest it returns without error, leaves the filesystem as it was and makes
  no call at all.
\<close>

theorem installer_runs_iff_manifest:
  fixes E C p fs
  defines "folder \<equiv> getPresenceFolder E C p"
  defines "s \<equiv> installPresenceDependencies E C p fs"
  shows "(list_ex is_execSync (snd (snd s))
            \<longleftrightarrow> existsSync fs (resolve E [folder, ''package.json'']))
       \<and> (\<forall>c d. Call_execSync c d \<in> set (snd (snd s)) \<longrightarrow> c = npm_install \<and> d = folder)
       \<and> (\<not> existsSync fs (resolve E [folder, ''package.json'']) \<longrightarrow> s = (Inr (), fs, []))"
  unfolding s_def folder_def
  by (auto simp: installPresenceDependencies_def Let_def split: prod.splits)

text \<open>C7, run on \<^verbatim>\<open>b\<close>, which has a manifest, and on \<^verbatim>\<open>a\<close>, which has none.\<close>

theorem installer_runs_iff_manifest_witness:
  "existsSync demo_fs
     (resolve demo_env [getPresenceFolder demo_env demo_compiler ''b'', ''package.json''])
   \<and> list_ex is_execSync
        (snd (snd (installPresenceDependencies demo_env demo_compiler ''b'' demo_fs)))
   \<and> \<not> existsSync demo_fs
        (resolve demo_env [getPresenceFolder demo_env demo_compiler ''a'', ''package.json''])
   \<and> installPresenceDependencies demo_env demo_compiler ''a'' demo_fs = (Inr (), demo_fs, [])"
proof -
  have h1: "existsSync demo_fs
     (resolve demo_env [getPresenceFolder demo_env demo_compiler ''b'', ''package.json''])"
    by code_simp
  have h2: "\<not> existsSync demo_fs
     (resolve demo_env [getPresenceFolder demo_env demo_compiler ''a'', ''package.json''])"
    by code_simp
  from h1 h2
    installer_runs_iff_manifest [where E = demo_env and C = demo_compiler and p = "''b''"
      and fs = demo_fs]
    installer_runs_iff_manifest [where E = demo_env and C = demo_compiler and p = "''a''"
      and fs = demo_fs]
  show ?thesis
    by blast
qed

text \<open>
  C8. After a single-unit call that returns the empty list, \<^verbatim>\<open>tsconfig.json\<close> is absent
  from the unit's directory, whatever the filesystem was before the call.
\<close>

theorem single_clean_leaves_no_config:
  assumes "outcome (compilePresence E C (Single p) opts fs) = Inr []"
  shows "\<not> existsSync (fs_after (compilePresence E C (Single p) opts fs)) (config_file E C p)"
  using compile_single_absent [OF single_run [where E = E and C = C and p = p and opts = opts and fs = fs]] assms
  by (simp add: existsSync_def)

text \<open>
  C8, run on \<^verbatim>\<open>a\<close>, whose directory holds a stale \<^verbatim>\<open>tsconfig.json\<close> before the call.
\<close>

theorem single_clean_leaves_no_config_witness:
  "outcome (demo (Single ''a'') no_options) = Inr []
   \<and> existsSync demo_fs (config_file demo_env demo_compiler ''a'')
   \<and> \<not> existsSync (fs_after (demo (Single ''a'') no_options))
         (config_file demo_env demo_compiler ''a'')"
proof -
  have h1: "outcome (demo (Single ''a'') no_options) = Inr []"
    by code_simp
  have h2: "existsSync demo_fs (config_file demo_env demo_compiler ''a'')"
    by code_simp
  from h1 h2
    single_clean_leaves_no_config [where E = demo_env and C = demo_compiler
      and p = "''a''" and opts = no_options and fs = demo_fs, folded demo_def]
  show ?thesis
    by blast
qed



text \<open>
  C10. Whatever the call does, the caller's options object has afterwards \<^verbatim>\<open>emit\<close> set
  (to true unless it was given) and \<^verbatim>\<open>transpileOnly\<close> set (to false unless it was given);
  after a single-unit call that was given no \<^verbatim>\<open>output\<close>, its \<^verbatim>\<open>output\<close> is the unit's
  directory.
\<close>

theorem options_object_mutated:
  fixes E C t opts fs
  defines "r \<equiv> compilePresence E C t opts fs"
  shows "emit (options_after r) = Some (case emit opts of None \<Rightarrow> True | Some b \<Rightarrow> b)
       \<and> transpileOnly (options_after r)
           = Some (case transpileOnly opts of None \<Rightarrow> False | Some b \<Rightarrow> b)
       \<and> (\<forall>p. t = Single p \<and> opt_output opts = None \<longrightarrow>
            opt_output (options_after r) = Some (getPresenceFolder E C p))"
  unfolding r_def
  by (cases t)
     (auto simp: compilePresence_def Let_def set_defaults_def default_output_def no_output_def
           split: prod.splits)

text \<open>C10, run on \<^verbatim>\<open>a\<close> with an options object that has no key set.\<close>

theorem options_object_mutated_witness:
  "opt_output no_options = None
   \<and> options_after (demo (Single ''a'') no_options)
       = \<lparr>opt_output = Some (getPresenceFolder demo_env demo_compiler ''a''),
          transpileOnly = Some False, emit = Some True\<rparr>"
proof -
  have h: "opt_output no_options = None" "emit no_options = None"
    "transpileOnly no_options = None"
    by (simp_all add: no_options_def)
  from h
    options_object_mutated [where E = demo_env and C = demo_compiler
      and t = "Single ''a''" and opts = no_options and fs = demo_fs, folded demo_def]
  show ?thesis
    by (cases "options_after (demo (Single ''a'') no_options)") simp
qed

end
